theory Spec2Isabelle
  imports Complex_Main "HOL-Library.Char_ord" "HOL-Library.List_Lexorder"
begin

section \<open>JavaScript values used by the service\<close>

text \<open>
  Request fields, nullable columns and nullable results are optional strings: \<open>None\<close> is
  JavaScript's \<open>undefined\<close>/\<open>null\<close> (SQL \<open>NULL\<close> in a column). A string is a list of
  code units below 256. A thrown JavaScript error is a value of type \<open>exn\<close>, and a
  computation that may throw returns \<open>exn + 'a\<close>.
\<close>

datatype exn = Exn string

text \<open>Truthiness of an optional string: \<open>undefined\<close>, \<open>null\<close> and \<open>''\<close> are falsy.\<close>

fun truthy :: "string option \<Rightarrow> bool" where
  "truthy None = False"
| "truthy (Some s) = (s \<noteq> [])"

text \<open>The idiom \<open>x || null\<close>.\<close>

definition or_null :: "string option \<Rightarrow> string option" where
  "or_null x = (if truthy x then x else None)"

text \<open>White space and line terminators of \<open>String.prototype.trim\<close> below code 256.\<close>

definition isWhiteSpace :: "char \<Rightarrow> bool" where
  "isWhiteSpace c =
     (c \<in> {CHR 0x09, CHR 0x0A, CHR 0x0B, CHR 0x0C, CHR 0x0D, CHR 0x20, CHR 0xA0})"

definition trim :: "string \<Rightarrow> string" where
  "trim s = rev (dropWhile isWhiteSpace (rev (dropWhile isWhiteSpace s)))"

text \<open>Decimal rendering of a non-negative integer, as a template literal prints it.\<close>

definition digit :: "nat \<Rightarrow> char" where
  "digit d = ''0123456789'' ! d"

function show_nat :: "nat \<Rightarrow> string" where
  "show_nat n = (if n < 10 then [digit n] else show_nat (n div 10) @ [digit (n mod 10)])"
  by pat_completeness auto
termination
  by (relation "measure (\<lambda>n. n)") auto

declare show_nat.simps [simp del]

section \<open>Key Converter\<close>

definition camelotMajor :: "nat list" where
  "camelotMajor = [8, 3, 10, 5, 12, 7, 2, 9, 4, 11, 6, 1]"

definition camelotMinor :: "nat list" where
  "camelotMinor = [5, 12, 7, 2, 9, 4, 11, 6, 1, 8, 3, 10]"

text \<open>
  Reading \<open>table[key]\<close>: an index outside the array gives \<open>undefined\<close>, which a
  template literal prints as the word itself.
\<close>

definition at_index :: "'a list \<Rightarrow> int \<Rightarrow> 'a option" where
  "at_index table k = (if 0 \<le> k \<and> k < int (length table) then Some (table ! nat k) else None)"

definition number_text :: "nat option \<Rightarrow> string" where
  "number_text v = (case v of None \<Rightarrow> ''undefined'' | Some n \<Rightarrow> show_nat n)"

definition string_text :: "string option \<Rightarrow> string" where
  "string_text v = (case v of None \<Rightarrow> ''undefined'' | Some t \<Rightarrow> t)"

definition convertToCamelotKey :: "int \<Rightarrow> int \<Rightarrow> string option" where
  "convertToCamelotKey key mode =
     (if key = -1 \<or> mode = -1 then None
      else if mode = 1 then Some (number_text (at_index camelotMajor key) @ ''A'')
      else Some (number_text (at_index camelotMinor key) @ ''B''))"

text \<open>The 24 labels of the wheel: positions 1 to 12 with suffix A, then with suffix B.\<close>

definition camelot_labels :: "string list" where
  "camelot_labels =
     [''1A'', ''2A'', ''3A'', ''4A'', ''5A'', ''6A'', ''7A'', ''8A'', ''9A'', ''10A'', ''11A'', ''12A'',
      ''1B'', ''2B'', ''3B'', ''4B'', ''5B'', ''6B'', ''7B'', ''8B'', ''9B'', ''10B'', ''11B'', ''12B'']"


section \<open>Spotify client\<close>

text \<open>
  A call to the provider is an outcome supplied by the environment: \<open>Inl\<close> when the
  request throws (transport failure, error status, or a payload without the expected
  shape, which raises inside the same \<open>try\<close> block), \<open>Inr\<close> with the payload otherwise.
  An \<open>async\<close> function returns a settled promise, \<open>Inl\<close> when rejected.
\<close>

type_synonym 'a promise = "exn + 'a"

record token_response =
  access_token :: "string option"
  expires_in :: int

record token_cache =
  spotifyAccessToken :: "string option"
  tokenExpiry :: "int option"

text \<open>
  What one call of \<open>getSpotifyAccessToken\<close> observes: \<open>Date.now()\<close> at the cache test,
  the outcome of the token request, and \<open>Date.now()\<close> when the expiry is stored.
\<close>

record token_call =
  now_test :: int
  token_post :: "exn + token_response"
  now_store :: int

definition getSpotifyAccessToken ::
  "token_call \<Rightarrow> token_cache \<Rightarrow> string option promise \<times> token_cache" where
  "getSpotifyAccessToken env cache =
     (if truthy (spotifyAccessToken cache)
         \<and> (case tokenExpiry cache of None \<Rightarrow> False | Some e \<Rightarrow> e \<noteq> 0 \<and> now_test env < e)
      then (Inr (spotifyAccessToken cache), cache)
      else (case token_post env of
              Inl e \<Rightarrow> (Inr None, cache)
            | Inr resp \<Rightarrow>
                (Inr (access_token resp),
                 \<lparr>spotifyAccessToken = access_token resp,
                  tokenExpiry = Some (now_store env + expires_in resp * 1000 - 60000)\<rparr>)))"

record track =
  track_name :: string
  track_artists :: "string list"
  track_id :: string
  track_popularity :: int
  track_preview_url :: "string option"
  track_external_urls :: string

record spotify_match =
  spotify_song_name :: string
  spotify_artist :: string
  spotify_id :: string
  spotify_popularity :: int
  spotify_preview_url :: "string option"
  spotify_external_urls :: string

text \<open>
  The body of the \<open>try\<close> block of \<open>verifyWithSpotify\<close>. The search is a function of
  the query text; reading \<open>track.artists[0].name\<close> of a track without artists throws.
\<close>

definition verifyWithSpotify_try ::
  "token_call \<Rightarrow> (string \<Rightarrow> exn + track list) \<Rightarrow> string \<Rightarrow> string \<Rightarrow> token_cache
     \<Rightarrow> (exn + spotify_match option) \<times> token_cache" where
  "verifyWithSpotify_try tenv search songName artistName cache =
     (case getSpotifyAccessToken tenv cache of
        (Inl e, cache') \<Rightarrow> (Inl e, cache')
      | (Inr token, cache') \<Rightarrow>
          if \<not> truthy token then (Inr None, cache')
          else (case search (''track:'' @ songName @ '' artist:'' @ artistName) of
                  Inl e \<Rightarrow> (Inl e, cache')
                | Inr [] \<Rightarrow> (Inr None, cache')
                | Inr (t # rest) \<Rightarrow>
                    (case track_artists t of
                       [] \<Rightarrow> (Inl (Exn ''TypeError''), cache')
                     | a # others \<Rightarrow>
                         (Inr (Some \<lparr>spotify_song_name = track_name t,
                                     spotify_artist = a,
                                     spotify_id = track_id t,
                                     spotify_popularity = track_popularity t,
                                     spotify_preview_url = track_preview_url t,
                                     spotify_external_urls = track_external_urls t\<rparr>),
                          cache'))))"

definition verifyWithSpotify ::
  "token_call \<Rightarrow> (string \<Rightarrow> exn + track list) \<Rightarrow> string \<Rightarrow> string \<Rightarrow> token_cache
     \<Rightarrow> spotify_match option promise \<times> token_cache" where
  "verifyWithSpotify tenv search songName artistName cache =
     (case verifyWithSpotify_try tenv search songName artistName cache of
        (Inl e, cache') \<Rightarrow> (Inr None, cache')
      | (Inr r, cache') \<Rightarrow> (Inr r, cache'))"

record audio_features =
  feat_key :: int
  feat_mode :: int
  feat_tempo :: "real option"

record features_result =
  af_bpm :: "int option"
  af_key_regular :: "string option"
  af_key_camelot :: "string option"

definition keyNames :: "string list" where
  "keyNames = [''C'', ''C#'', ''D'', ''D#'', ''E'', ''F'', ''F#'', ''G'', ''G#'', ''A'', ''A#'', ''B'']"

definition modeNames :: "string list" where
  "modeNames = [''minor'', ''major'']"

text \<open>\<open>Math.round\<close> rounds a half upwards.\<close>

definition math_round :: "real \<Rightarrow> int" where
  "math_round x = \<lfloor>x + 1 / 2\<rfloor>"

definition process_features :: "audio_features \<Rightarrow> features_result" where
  "process_features features =
     \<lparr>af_bpm = (case feat_tempo features of
                  None \<Rightarrow> None
                | Some t \<Rightarrow> if t \<noteq> 0 then Some (math_round t) else None),
      af_key_regular =
        (if feat_key features \<noteq> -1 \<and> feat_mode features \<noteq> -1
         then Some (string_text (at_index keyNames (feat_key features)) @ '' ''
                    @ string_text (at_index modeNames (feat_mode features)))
         else None),
      af_key_camelot = convertToCamelotKey (feat_key features) (feat_mode features)\<rparr>"

definition getSpotifyAudioFeatures_try ::
  "token_call \<Rightarrow> (string \<Rightarrow> exn + audio_features) \<Rightarrow> string \<Rightarrow> token_cache
     \<Rightarrow> (exn + features_result option) \<times> token_cache" where
  "getSpotifyAudioFeatures_try tenv features_api trackId cache =
     (case getSpotifyAccessToken tenv cache of
        (Inl e, cache') \<Rightarrow> (Inl e, cache')
      | (Inr token, cache') \<Rightarrow>
          if \<not> truthy token then (Inr None, cache')
          else (case features_api trackId of
                  Inl e \<Rightarrow> (Inl e, cache')
                | Inr features \<Rightarrow> (Inr (Some (process_features features)), cache')))"

definition getSpotifyAudioFeatures ::
  "token_call \<Rightarrow> (string \<Rightarrow> exn + audio_features) \<Rightarrow> string \<Rightarrow> token_cache
     \<Rightarrow> features_result option promise \<times> token_cache" where
  "getSpotifyAudioFeatures tenv features_api trackId cache =
     (case getSpotifyAudioFeatures_try tenv features_api trackId cache of
        (Inl e, cache') \<Rightarrow> (Inr None, cache')
      | (Inr r, cache') \<Rightarrow> (Inr r, cache'))"

section \<open>Enrichment Client, Spotify revision\<close>

record enhanced =
  corrected_song_name :: string
  corrected_artist :: string
  bpm :: "int option"
  key_camelot :: "string option"
  key_regular :: "string option"
  spotify_verified :: bool
  spotify_data :: "spotify_match option"

text \<open>The record both the no-match branch and the \<open>catch\<close> block return.\<close>

definition original_data :: "string \<Rightarrow> string \<Rightarrow> enhanced" where
  "original_data songName artist =
     \<lparr>corrected_song_name = songName, corrected_artist = artist, bpm = None,
      key_camelot = None, key_regular = None, spotify_verified = False, spotify_data = None\<rparr>"

text \<open>
  The environment of one call: the two token calls (one inside each helper), the search
  endpoint and the audio-features endpoint.
\<close>

record spotify_env =
  verify_token :: token_call
  search_api :: "string \<Rightarrow> exn + track list"
  features_token :: token_call
  features_api :: "string \<Rightarrow> exn + audio_features"

definition enhanceSongData_try ::
  "spotify_env \<Rightarrow> string \<Rightarrow> string \<Rightarrow> token_cache \<Rightarrow> (exn + enhanced) \<times> token_cache" where
  "enhanceSongData_try env songName artist cache =
     (case verifyWithSpotify (verify_token env) (search_api env) songName artist cache of
        (Inl e, c1) \<Rightarrow> (Inl e, c1)
      | (Inr None, c1) \<Rightarrow> (Inr (original_data songName artist), c1)
      | (Inr (Some spotifyData), c1) \<Rightarrow>
          (case getSpotifyAudioFeatures (features_token env) (features_api env)
                  (spotify_id spotifyData) c1 of
             (Inl e, c2) \<Rightarrow> (Inl e, c2)
           | (Inr audioFeatures, c2) \<Rightarrow>
               (Inr \<lparr>corrected_song_name = spotify_song_name spotifyData,
                     corrected_artist = spotify_artist spotifyData,
                     bpm = (case audioFeatures of None \<Rightarrow> None | Some f \<Rightarrow> af_bpm f),
                     key_camelot =
                       (case audioFeatures of None \<Rightarrow> None | Some f \<Rightarrow> af_key_camelot f),
                     key_regular =
                       (case audioFeatures of None \<Rightarrow> None | Some f \<Rightarrow> af_key_regular f),
                     spotify_verified = True,
                     spotify_data = Some spotifyData\<rparr>, c2)))"

definition enhanceSongData ::
  "spotify_env \<Rightarrow> string \<Rightarrow> string \<Rightarrow> token_cache \<Rightarrow> enhanced promise \<times> token_cache" where
  "enhanceSongData env songName artist cache =
     (case enhanceSongData_try env songName artist cache of
        (Inl e, cache') \<Rightarrow> (Inr (original_data songName artist), cache')
      | (Inr r, cache') \<Rightarrow> (Inr r, cache'))"

section \<open>Enrichment Client, OpenAI revision\<close>

text \<open>
  The value \<open>JSON.parse\<close> returns. The parser itself is a library function and is a
  parameter of the model: it throws (\<open>Inl\<close>) or returns a value.
\<close>

datatype json = JNull | JBool bool | JNum real | JStr string | JArr "json list"
  | JObj "(string \<times> json) list"

text \<open>Truthiness of a property read; \<open>None\<close> is \<open>undefined\<close>.\<close>

fun js_truthy :: "json option \<Rightarrow> bool" where
  "js_truthy None = False"
| "js_truthy (Some JNull) = False"
| "js_truthy (Some (JBool b)) = b"
| "js_truthy (Some (JNum n)) = (n \<noteq> 0)"
| "js_truthy (Some (JStr t)) = (t \<noteq> [])"
| "js_truthy (Some (JArr xs)) = True"
| "js_truthy (Some (JObj kvs)) = True"

text \<open>Reading \<open>v.k\<close> of a value other than \<open>null\<close>: only an object has the fields read here.\<close>

fun field :: "json \<Rightarrow> string \<Rightarrow> json option" where
  "field (JObj kvs) k = map_of kvs k"
| "field v k = None"

text \<open>The idiom \<open>v.k || d\<close>.\<close>

definition field_or :: "json \<Rightarrow> string \<Rightarrow> json \<Rightarrow> json" where
  "field_or v k d = (case field v k of None \<Rightarrow> d | Some x \<Rightarrow> if js_truthy (Some x) then x else d)"

text \<open>
  \<open>response.match(/\{[\s\S]*\}/)\<close>: the text from the first opening brace to the last
  closing brace after it, if there is one.
\<close>

definition match_braces :: "string \<Rightarrow> string option" where
  "match_braces response =
     (case dropWhile (\<lambda>c. c \<noteq> CHR ''{'') response of
        [] \<Rightarrow> None
      | b # t \<Rightarrow>
          if CHR ''}'' \<in> set t
          then Some (b # rev (dropWhile (\<lambda>c. c \<noteq> CHR ''}'') (rev t)))
          else None)"

record enhanced_ai =
  ai_corrected_song_name :: json
  ai_corrected_artist :: json
  ai_bpm :: json
  ai_key_camelot :: json
  ai_key_regular :: json

text \<open>
  The completion request is a function of the song and the artist (they are spliced into
  the prompt); it throws or returns the message contents of the choices, a content being
  nullable. The body of the \<open>try\<close> block follows.
\<close>

definition enhanceSongData_openai_try ::
  "(string \<Rightarrow> string \<Rightarrow> exn + string option list) \<Rightarrow> (string \<Rightarrow> exn + json)
     \<Rightarrow> string \<Rightarrow> string \<Rightarrow> exn + enhanced_ai" where
  "enhanceSongData_openai_try chat parse songName artist =
     (case chat songName artist of
        Inl e \<Rightarrow> Inl e
      | Inr [] \<Rightarrow> Inl (Exn ''TypeError'')
      | Inr (None # rest) \<Rightarrow> Inl (Exn ''TypeError'')
      | Inr (Some content # rest) \<Rightarrow>
          (let response = trim content;
               jsonResponse = (case match_braces response of None \<Rightarrow> response | Some m \<Rightarrow> m)
           in case parse jsonResponse of
                Inl e \<Rightarrow> Inl e
              | Inr JNull \<Rightarrow> Inl (Exn ''TypeError'')
              | Inr enhancedData \<Rightarrow>
                  Inr \<lparr>ai_corrected_song_name =
                         field_or enhancedData ''corrected_song_name'' (JStr songName),
                       ai_corrected_artist =
                         field_or enhancedData ''corrected_artist'' (JStr artist),
                       ai_bpm = field_or enhancedData ''bpm'' JNull,
                       ai_key_camelot = field_or enhancedData ''key_camelot'' JNull,
                       ai_key_regular = field_or enhancedData ''key_regular'' JNull\<rparr>))"

definition original_data_ai :: "string \<Rightarrow> string \<Rightarrow> enhanced_ai" where
  "original_data_ai songName artist =
     \<lparr>ai_corrected_song_name = JStr songName, ai_corrected_artist = JStr artist,
      ai_bpm = JNull, ai_key_camelot = JNull, ai_key_regular = JNull\<rparr>"

definition enhanceSongData_openai ::
  "(string \<Rightarrow> string \<Rightarrow> exn + string option list) \<Rightarrow> (string \<Rightarrow> exn + json)
     \<Rightarrow> string \<Rightarrow> string \<Rightarrow> enhanced_ai promise" where
  "enhanceSongData_openai chat parse songName artist =
     (case enhanceSongData_openai_try chat parse songName artist of
        Inl e \<Rightarrow> Inr (original_data_ai songName artist)
      | Inr r \<Rightarrow> Inr r)"

section \<open>The store\<close>

text \<open>
  The two tables, rows in insertion order. A nullable column is an option. The store also
  holds the AUTOINCREMENT sequence of \<open>submissions\<close>. Storage-engine failures other than a
  constraint violation (the \<open>err\<close> argument of a callback on an I/O error) are outside the
  model: a query on these tables returns.
\<close>

record session =
  ses_id :: string
  ses_name :: string
  ses_created_at :: string
  ses_is_active :: int
  ses_welcome_message :: "string option"
  ses_subtitle_message :: "string option"
  ses_background :: "string option"

record submission =
  sub_id :: nat
  sub_session_id :: "string option"
  sub_song_name :: string
  sub_artist :: string
  sub_user_name :: "string option"
  sub_original_song_name :: "string option"
  sub_original_artist :: "string option"
  sub_bpm :: "int option"
  sub_key_camelot :: "string option"
  sub_key_regular :: "string option"
  sub_spotify_fetched :: int
  sub_created_at :: string

record store =
  sessions :: "session list"
  submissions :: "submission list"
  submissions_seq :: nat

text \<open>\<open>SELECT ... FROM sessions WHERE id = ?\<close> read with \<open>db.get\<close>: the first row, if any.\<close>

definition select_session :: "string \<Rightarrow> store \<Rightarrow> session option" where
  "select_session sessionId db = find (\<lambda>r. ses_id r = sessionId) (sessions db)"

text \<open>\<open>INSERT INTO sessions\<close>: the primary key rejects an id that is already there.\<close>

definition insert_session :: "session \<Rightarrow> store \<Rightarrow> store option" where
  "insert_session r db =
     (if ses_id r \<in> set (map ses_id (sessions db)) then None
      else Some (db\<lparr>sessions := sessions db @ [r]\<rparr>))"

text \<open>\<open>INSERT INTO submissions\<close>: the row id is one more than the largest ever used.\<close>

definition next_submission_id :: "store \<Rightarrow> nat" where
  "next_submission_id db = Suc (fold max (map sub_id (submissions db)) (submissions_seq db))"

definition insert_submission :: "submission \<Rightarrow> store \<Rightarrow> store" where
  "insert_submission r db =
     db\<lparr>submissions := submissions db @ [r\<lparr>sub_id := next_submission_id db\<rparr>],
        submissions_seq := next_submission_id db\<rparr>"

text \<open>
  \<open>SELECT * FROM submissions WHERE session_id = ? ORDER BY created_at DESC\<close>; the text
  column is compared byte by byte. A \<open>NULL\<close> session reference matches no parameter.
\<close>

definition select_submissions :: "string \<Rightarrow> store \<Rightarrow> submission list" where
  "select_submissions sessionId db =
     rev (sort_key sub_created_at
            (filter (\<lambda>r. sub_session_id r = Some sessionId) (submissions db)))"

text \<open>\<open>DELETE FROM submissions WHERE session_id = ?\<close>, with the number of rows deleted.\<close>

definition delete_submissions :: "string \<Rightarrow> store \<Rightarrow> nat \<times> store" where
  "delete_submissions sessionId db =
     (length (filter (\<lambda>r. sub_session_id r = Some sessionId) (submissions db)),
      db\<lparr>submissions := filter (\<lambda>r. sub_session_id r \<noteq> Some sessionId) (submissions db)\<rparr>)"

text \<open>\<open>UPDATE sessions SET welcome_message = ?, subtitle_message = ?, background = ? WHERE id = ?\<close>.\<close>

definition update_session_settings ::
  "string option \<Rightarrow> string option \<Rightarrow> string option \<Rightarrow> string \<Rightarrow> store \<Rightarrow> store" where
  "update_session_settings w sub bg sessionId db =
     db\<lparr>sessions :=
          map (\<lambda>r. if ses_id r = sessionId
                    then r\<lparr>ses_welcome_message := w, ses_subtitle_message := sub,
                           ses_background := bg\<rparr>
                    else r)
              (sessions db)\<rparr>"

section \<open>Session ids\<close>

text \<open>
  The random source is a sequence of draws, the \<open>n\<close>-th being the value of
  \<open>Math.floor(Math.random() * chars.length)\<close> at the \<open>n\<close>-th call, together with the number
  of draws already taken. \<open>Math.random()\<close> lies in [0, 1), so a draw is below 36.
\<close>

type_synonym draws = "nat \<Rightarrow> nat"

definition chars :: string where
  "chars = ''ABCDEFGHIJKLMNOPQRSTUVWXYZ0123456789''"

text \<open>\<open>String.prototype.charAt\<close>: the empty string outside the text.\<close>

definition charAt :: "string \<Rightarrow> nat \<Rightarrow> string" where
  "charAt t i = (if i < length t then [t ! i] else [])"

text \<open>The \<open>for\<close> loop of \<open>generateShortCode\<close>, with the number of rounds still to run.\<close>

fun shortCodeLoop :: "nat \<Rightarrow> draws \<Rightarrow> nat \<Rightarrow> string \<Rightarrow> string \<times> nat" where
  "shortCodeLoop 0 g p code = (code, p)"
| "shortCodeLoop (Suc k) g p code = shortCodeLoop k g (Suc p) (code @ charAt chars (g p))"

definition generateShortCode :: "draws \<Rightarrow> nat \<Rightarrow> string \<times> nat" where
  "generateShortCode g p = shortCodeLoop 4 g p []"

definition maxAttempts :: nat where
  "maxAttempts = 100"

text \<open>
  \<open>tryGenerate\<close>, with the counter \<open>attempts\<close> as an argument: the result is the id handed
  to the callback (\<open>None\<close> for \<open>null\<close>) and the number of draws taken.
\<close>

function tryGenerate :: "draws \<Rightarrow> store \<Rightarrow> nat \<Rightarrow> nat \<Rightarrow> string option \<times> nat" where
  "tryGenerate g db attempts p =
     (if Suc attempts > maxAttempts then (None, p)
      else (case generateShortCode g p of
              (sessionId, p') \<Rightarrow>
                (case select_session sessionId db of
                   Some row \<Rightarrow> tryGenerate g db (Suc attempts) p'
                 | None \<Rightarrow> (Some sessionId, p'))))"
  by pat_completeness auto
termination
  by (relation "measure (\<lambda>(g, db, attempts, p). Suc maxAttempts - attempts)") auto

declare tryGenerate.simps [simp del]

definition generateSessionId :: "draws \<Rightarrow> nat \<Rightarrow> store \<Rightarrow> string option \<times> nat" where
  "generateSessionId g p db = tryGenerate g db 0 p"

section \<open>HTTP layer\<close>

text \<open>A response is a JSON payload with status 200, or a status with its \<open>error\<close> text.\<close>

datatype 'a response = Json 'a | Failure nat string

record session_info =
  info_id :: string
  info_name :: string
  info_createdAt :: string

text \<open>
  \<open>POST /api/sessions\<close>. \<open>now\<close> is \<open>CURRENT_TIMESTAMP\<close> at the insert and \<open>isoNow\<close> is
  \<open>new Date().toISOString()\<close> at the response.
\<close>

definition post_sessions ::
  "draws \<Rightarrow> nat \<Rightarrow> string \<Rightarrow> string \<Rightarrow> string option \<Rightarrow> store
     \<Rightarrow> session_info response \<times> store \<times> nat" where
  "post_sessions g p now isoNow name db =
     (if \<not> truthy name \<or> trim (the name) = []
      then (Failure 400 ''Session name is required'', db, p)
      else (case generateSessionId g p db of
              (sessionId, p') \<Rightarrow>
                if \<not> truthy sessionId
                then (Failure 500 ''Failed to generate unique session ID'', db, p')
                else (let sessionName = trim (the name) in
                      case insert_session
                             \<lparr>ses_id = the sessionId, ses_name = sessionName,
                              ses_created_at = now, ses_is_active = 1,
                              ses_welcome_message = Some sessionName,
                              ses_subtitle_message = Some ''Submit your song below'',
                              ses_background = Some ''#000''\<rparr> db of
                        None \<Rightarrow> (Failure 500 ''Failed to create session'', db, p')
                      | Some db' \<Rightarrow>
                          (Json \<lparr>info_id = the sessionId, info_name = sessionName,
                                  info_createdAt = isoNow\<rparr>, db', p'))))"

text \<open>
  \<open>POST /api/submit\<close>. The payload of a success is the id of the new row. The handler
  awaits \<open>getSpotifyAudioFeatures\<close> inside its own \<open>try\<close> block when a Spotify id came.
\<close>

definition post_submit ::
  "token_call \<Rightarrow> (string \<Rightarrow> exn + audio_features) \<Rightarrow> string
     \<Rightarrow> string option \<Rightarrow> string option \<Rightarrow> string option \<Rightarrow> string option \<Rightarrow> string option
     \<Rightarrow> store \<Rightarrow> token_cache \<Rightarrow> nat response \<times> store \<times> token_cache" where
  "post_submit tenv feats now songName artist userName sessionId spotifyId db cache =
     (if \<not> truthy songName \<or> \<not> truthy artist
      then (Failure 400 ''Song name and artist are required'', db, cache)
      else if \<not> truthy sessionId
      then (Failure 400 ''Session ID is required'', db, cache)
      else (case select_session (the sessionId) db of
              None \<Rightarrow> (Failure 404 ''Session not found'', db, cache)
            | Some session \<Rightarrow>
                (let (audioFeatures, cache') =
                       (if truthy spotifyId
                        then (case getSpotifyAudioFeatures tenv feats (the spotifyId) cache of
                                (Inl e, c) \<Rightarrow> (None, c)
                              | (Inr r, c) \<Rightarrow> (r, c))
                        else (None, cache));
                     db' = insert_submission
                             \<lparr>sub_id = 0, sub_session_id = sessionId,
                              sub_song_name = the songName, sub_artist = the artist,
                              sub_user_name = or_null userName,
                              sub_original_song_name = songName,
                              sub_original_artist = artist,
                              sub_bpm = (case audioFeatures of None \<Rightarrow> None | Some f \<Rightarrow> af_bpm f),
                              sub_key_camelot =
                                (case audioFeatures of None \<Rightarrow> None | Some f \<Rightarrow> af_key_camelot f),
                              sub_key_regular =
                                (case audioFeatures of None \<Rightarrow> None | Some f \<Rightarrow> af_key_regular f),
                              sub_spotify_fetched = (if truthy spotifyId then 1 else 0),
                              sub_created_at = now\<rparr> db
                 in (Json (submissions_seq db'), db', cache'))))"

text \<open>
  The format test \<open>/^\d{4}-\d{2}-\d{2} \d{2}:\d{2}:\d{2}$/\<close> and the rewrite of a matching
  \<open>created_at\<close> in \<open>GET /api/submissions\<close>.
\<close>

definition is_digit :: "char \<Rightarrow> bool" where
  "is_digit c = (c \<in> set ''0123456789'')"

definition is_sqlite_datetime :: "string \<Rightarrow> bool" where
  "is_sqlite_datetime t =
     list_all2 (\<lambda>q c. if q = CHR ''d'' then is_digit c else c = q) ''dddd-dd-dd dd:dd:dd'' t"

text \<open>\<open>String.prototype.replace\<close> with a one-character text pattern: the first occurrence.\<close>

fun replace_first :: "char \<Rightarrow> string \<Rightarrow> string \<Rightarrow> string" where
  "replace_first a b [] = []"
| "replace_first a b (c # cs) = (if c = a then b @ cs else c # replace_first a b cs)"

definition format_row :: "submission \<Rightarrow> submission" where
  "format_row row =
     (if sub_created_at row \<noteq> [] \<and> is_sqlite_datetime (trim (sub_created_at row))
      then row\<lparr>sub_created_at := replace_first CHR '' '' ''T'' (trim (sub_created_at row)) @ ''.000Z''\<rparr>
      else row)"

definition get_submissions :: "string option \<Rightarrow> store \<Rightarrow> submission list response" where
  "get_submissions sessionId db =
     (if \<not> truthy sessionId then Failure 400 ''Session ID is required''
      else (case select_session (the sessionId) db of
              None \<Rightarrow> Failure 404 ''Session not found''
            | Some session \<Rightarrow> Json (map format_row (select_submissions (the sessionId) db))))"

text \<open>\<open>DELETE /api/clear\<close>. The payload is \<open>deletedCount\<close>.\<close>

definition delete_clear :: "string option \<Rightarrow> store \<Rightarrow> nat response \<times> store" where
  "delete_clear sessionId db =
     (if \<not> truthy sessionId then (Failure 400 ''Session ID is required'', db)
      else (case delete_submissions (the sessionId) db of
              (changes, db') \<Rightarrow> (Json changes, db')))"

text \<open>\<open>POST /api/update-settings\<close>. The payload \<open>{success: true}\<close> carries no data.\<close>

definition post_update_settings ::
  "string option \<Rightarrow> string option \<Rightarrow> string option \<Rightarrow> string option \<Rightarrow> store
     \<Rightarrow> unit response \<times> store" where
  "post_update_settings sessionId welcomeMessage subtitleMessage background db =
     (if \<not> truthy sessionId then (Failure 400 ''Session ID is required'', db)
      else (Json (),
            update_session_settings (or_null welcomeMessage) (or_null subtitleMessage)
              (or_null background) (the sessionId) db))"

record settings =
  welcomeMessage :: "string option"
  subtitleMessage :: string
  background :: string

text \<open>The test \<open>v && v.trim() !== ''\<close> on a nullable column.\<close>

definition is_set :: "string option \<Rightarrow> bool" where
  "is_set v = (case v of None \<Rightarrow> False | Some t \<Rightarrow> t \<noteq> [] \<and> trim t \<noteq> [])"

text \<open>\<open>GET /api/settings\<close>.\<close>

definition get_settings :: "string option \<Rightarrow> store \<Rightarrow> settings response" where
  "get_settings sessionId db =
     (if \<not> truthy sessionId
      then Json \<lparr>welcomeMessage = None, subtitleMessage = ''Submit your song below'',
                 background = ''#000''\<rparr>
      else (case select_session (the sessionId) db of
              None \<Rightarrow> Failure 404 ''Session not found''
            | Some row \<Rightarrow>
                Json \<lparr>welcomeMessage =
                        Some (if is_set (ses_welcome_message row)
                              then the (ses_welcome_message row) else ses_name row),
                      subtitleMessage =
                        (if is_set (ses_subtitle_message row)
                         then the (ses_subtitle_message row) else ''Submit your song below''),
                      background =
                        (if is_set (ses_background row)
                         then the (ses_background row) else ''#000'')\<rparr>))"

text \<open>
  \<open>GET /:sessionCode\<close>. The test is \<open>/^[A-Z0-9]{4}$/i\<close>: four characters, each a letter
  of either case or a digit.
\<close>

definition is_upper :: "char \<Rightarrow> bool" where
  "is_upper c = (c \<in> set ''ABCDEFGHIJKLMNOPQRSTUVWXYZ'')"

definition is_lower :: "char \<Rightarrow> bool" where
  "is_lower c = (c \<in> set ''abcdefghijklmnopqrstuvwxyz'')"

definition session_code_test :: "string \<Rightarrow> bool" where
  "session_code_test t = (length t = 4 \<and> list_all (\<lambda>c. is_upper c \<or> is_lower c \<or> is_digit c) t)"

datatype page = Redirect string | Status nat string

definition get_session_code :: "string \<Rightarrow> page" where
  "get_session_code sessionCode =
     (if session_code_test sessionCode then Redirect (''/session/'' @ sessionCode)
      else Status 404 ''Session not found'')"

text \<open>The pattern \<open>^[A-Z0-9]{4}$\<close> of the specification, without the flag.\<close>

definition matches_code_pattern :: "string \<Rightarrow> bool" where
  "matches_code_pattern t = (length t = 4 \<and> list_all (\<lambda>c. is_upper c \<or> is_digit c) t)"

text \<open>
  A run of \<open>POST /api/sessions\<close> requests, one after the other on the same store and
  random source; a request is its \<open>name\<close> and its two clock readings. The run returns
  the responses in order.
\<close>

fun create_sessions ::
  "draws \<Rightarrow> nat \<Rightarrow> (string option \<times> string \<times> string) list \<Rightarrow> store
     \<Rightarrow> session_info response list \<times> store \<times> nat" where
  "create_sessions g p [] db = ([], db, p)"
| "create_sessions g p ((name, now, isoNow) # reqs) db =
     (case post_sessions g p now isoNow name db of
        (r, db', p') \<Rightarrow>
          (case create_sessions g p' reqs db' of
             (rs, db'', p'') \<Rightarrow> (r # rs, db'', p'')))"

text \<open>The ids of the sessions that a list of responses reports as created.\<close>

fun created_ids :: "session_info response list \<Rightarrow> string list" where
  "created_ids [] = []"
| "created_ids (Json i # rs) = info_id i # created_ids rs"
| "created_ids (Failure st m # rs) = created_ids rs"

text \<open>Upper-casing a letter, which is how the flag \<open>i\<close> compares characters.\<close>

definition upcase :: "char \<Rightarrow> char" where
  "upcase c =
     (case map_of (zip ''abcdefghijklmnopqrstuvwxyz'' ''ABCDEFGHIJKLMNOPQRSTUVWXYZ'') c of
        None \<Rightarrow> c
      | Some u \<Rightarrow> u)"

section \<open>A sample store\<close>

text \<open>Two sessions, each with submissions, used to evaluate the handlers.\<close>

definition friday :: session where
  "friday = \<lparr>ses_id = ''AB12'', ses_name = ''Friday Mixer'', ses_created_at = ''2024-05-03 20:00:00'',
             ses_is_active = 1, ses_welcome_message = Some ''Friday Mixer'',
             ses_subtitle_message = Some ''Submit your song below'', ses_background = Some ''#000''\<rparr>"

definition karaoke :: session where
  "karaoke = \<lparr>ses_id = ''CD34'', ses_name = ''Karaoke'', ses_created_at = ''2024-05-04 19:00:00'',
              ses_is_active = 1, ses_welcome_message = None,
              ses_subtitle_message = None, ses_background = None\<rparr>"

definition request :: "nat \<Rightarrow> string \<Rightarrow> string \<Rightarrow> string \<Rightarrow> string \<Rightarrow> submission" where
  "request n sessionId song art stamp =
     \<lparr>sub_id = n, sub_session_id = Some sessionId, sub_song_name = song, sub_artist = art,
      sub_user_name = None, sub_original_song_name = Some song, sub_original_artist = Some art,
      sub_bpm = None, sub_key_camelot = None, sub_key_regular = None, sub_spotify_fetched = 0,
      sub_created_at = stamp\<rparr>"

definition sample_store :: store where
  "sample_store =
     \<lparr>sessions = [friday, karaoke],
      submissions = [request 1 ''AB12'' ''yesterday'' ''beatles'' ''2024-05-03 20:05:00'',
                     request 2 ''CD34'' ''hello'' ''adele'' ''2024-05-04 19:10:00'',
                     request 3 ''AB12'' ''one'' ''u2'' ''2024-05-03 20:30:00''],
      submissions_seq = 3\<rparr>"

text \<open>
  An empty store; a store that already holds the id \<open>AAAA\<close>; a random source that
  always draws 0, so that every candidate is \<open>AAAA\<close>; and one that counts upwards.
\<close>

definition empty_store :: store where
  "empty_store = \<lparr>sessions = [], submissions = [], submissions_seq = 0\<rparr>"

definition crowded_store :: store where
  "crowded_store = \<lparr>sessions = [friday\<lparr>ses_id := ''AAAA''\<rparr>], submissions = [],
                     submissions_seq = 0\<rparr>"

definition stuck :: draws where
  "stuck n = 0"

definition counting :: draws where
  "counting n = n mod 36"

text \<open>The store after one and after two sessions were created in the empty store.\<close>

definition after_one :: store where
  "after_one =
     \<lparr>sessions = [\<lparr>ses_id = ''ABCD'', ses_name = ''Friday Mixer'',
                   ses_created_at = ''2024-05-03 20:00:00'', ses_is_active = 1,
                   ses_welcome_message = Some ''Friday Mixer'',
                   ses_subtitle_message = Some ''Submit your song below'',
                   ses_background = Some ''#000''\<rparr>],
      submissions = [], submissions_seq = 0\<rparr>"

definition after_two :: store where
  "after_two =
     \<lparr>sessions = [\<lparr>ses_id = ''ABCD'', ses_name = ''Friday Mixer'',
                   ses_created_at = ''2024-05-03 20:00:00'', ses_is_active = 1,
                   ses_welcome_message = Some ''Friday Mixer'',
                   ses_subtitle_message = Some ''Submit your song below'',
                   ses_background = Some ''#000''\<rparr>,
                  \<lparr>ses_id = ''EFGH'', ses_name = ''Karaoke'',
                   ses_created_at = ''2024-05-04 19:00:00'', ses_is_active = 1,
                   ses_welcome_message = Some ''Karaoke'',
                   ses_subtitle_message = Some ''Submit your song below'',
                   ses_background = Some ''#000''\<rparr>],
      submissions = [], submissions_seq = 0\<rparr>"

text \<open>An environment in which the provider is never reached.\<close>

definition offline :: token_call where
  "offline = \<lparr>now_test = 0, token_post = Inl (Exn ''ECONNREFUSED''), now_store = 0\<rparr>"

definition no_features :: "string \<Rightarrow> exn + audio_features" where
  "no_features trackId = Inl (Exn ''ECONNREFUSED'')"

definition empty_cache :: token_cache where
  "empty_cache = \<lparr>spotifyAccessToken = None, tokenExpiry = None\<rparr>"

text \<open>
  An environment in which the token request and the search succeed, the search finds one
  track, and the audio-features request fails.
\<close>

definition yesterday :: track where
  "yesterday = \<lparr>track_name = ''Yesterday'', track_artists = [''The Beatles''],
                track_id = ''3BQHpFgAp4l80e1XslIjNI'', track_popularity = 80,
                track_preview_url = None, track_external_urls = ''{}''\<rparr>"

definition features_down :: spotify_env where
  "features_down =
     \<lparr>verify_token = \<lparr>now_test = 1000,
                       token_post = Inr \<lparr>access_token = Some ''token'', expires_in = 3600\<rparr>,
                       now_store = 1000\<rparr>,
      search_api = (\<lambda>q. Inr [yesterday]),
      features_token = \<lparr>now_test = 2000, token_post = Inl (Exn ''ECONNREFUSED''),
                         now_store = 2000\<rparr>,
      features_api = no_features\<rparr>"

text \<open>An environment in which nothing is reachable.\<close>

definition all_down :: spotify_env where
  "all_down = \<lparr>verify_token = offline, search_api = (\<lambda>q. Inl (Exn ''ECONNREFUSED'')),
               features_token = offline, features_api = no_features\<rparr>"

text \<open>A completion that is not JSON, and a parser that rejects every text.\<close>

definition chatty :: "string \<Rightarrow> string \<Rightarrow> exn + string option list" where
  "chatty songName artist = Inr [Some ''I could not find that song.'']"

definition reject :: "string \<Rightarrow> exn + json" where
  "reject t = Inl (Exn ''SyntaxError'')"

section \<open>Properties of the Key Converter\<close>

lemma show_nat_small: "n < 10 \<Longrightarrow> show_nat n = [digit n]"
  by (simp add: show_nat.simps)

lemma show_nat_wheel:
  "show_nat (Suc 0) = ''1''" "show_nat 2 = ''2''" "show_nat 3 = ''3''" "show_nat 4 = ''4''"
  "show_nat 5 = ''5''" "show_nat 6 = ''6''" "show_nat 7 = ''7''" "show_nat 8 = ''8''"
  "show_nat 9 = ''9''" "show_nat 10 = ''10''" "show_nat 11 = ''11''" "show_nat 12 = ''12''"
  by (simp_all add: show_nat.simps[of 10] show_nat.simps[of 11] show_nat.simps[of 12]
        show_nat_small digit_def)

lemma pitch_class_cases:
  "0 \<le> key \<Longrightarrow> key < 12 \<Longrightarrow> key \<in> {0, 1, 2, 3, 4, 5, 6, 7, 8, 9, 10, 11 :: int}"
  by simp arith

text \<open>
  Claim C4. \<open>convertToCamelotKey\<close> is a total function: for every pitch class 0..11 and
  mode 0 (minor) or 1 (major) it returns the wheel position 1..12 read from the table of
  that mode, followed by \<open>A\<close> for major and \<open>B\<close> for minor, which is one of the 24
  fixed labels; when the pitch class or the mode is -1 it returns null.
\<close>

theorem convertToCamelotKey_total:
  "(0 \<le> key \<and> key < 12 \<and> (mode = 0 \<or> mode = 1) \<longrightarrow>
      (\<exists>n. 1 \<le> n \<and> n \<le> 12
         \<and> n = (if mode = 1 then camelotMajor else camelotMinor) ! nat key
         \<and> convertToCamelotKey key mode
               = Some (show_nat n @ (if mode = 1 then ''A'' else ''B'')))
      \<and> (\<exists>l \<in> set camelot_labels. convertToCamelotKey key mode = Some l))
   \<and> (key = -1 \<or> mode = -1 \<longrightarrow> convertToCamelotKey key mode = None)"
proof (intro conjI impI)
  assume "key = -1 \<or> mode = -1"
  then show "convertToCamelotKey key mode = None"
    by (auto simp: convertToCamelotKey_def)
next
  assume a: "0 \<le> key \<and> key < 12 \<and> (mode = 0 \<or> mode = 1)"
  then have k: "key \<in> {0, 1, 2, 3, 4, 5, 6, 7, 8, 9, 10, 11 :: int}"
    using pitch_class_cases [of key] by blast
  from a have m: "mode = 0 \<or> mode = 1"
    by simp
  from k m show "\<exists>n. 1 \<le> n \<and> n \<le> 12
         \<and> n = (if mode = 1 then camelotMajor else camelotMinor) ! nat key
         \<and> convertToCamelotKey key mode
               = Some (show_nat n @ (if mode = 1 then ''A'' else ''B''))"
    by (auto simp: convertToCamelotKey_def number_text_def at_index_def camelotMajor_def camelotMinor_def)
  from k m show "\<exists>l \<in> set camelot_labels. convertToCamelotKey key mode = Some l"
    by (auto simp: convertToCamelotKey_def number_text_def at_index_def camelotMajor_def camelotMinor_def
          camelot_labels_def show_nat_wheel)
qed

theorem convertToCamelotKey_total_witness:
  "convertToCamelotKey 9 0 = Some ''8B'' \<and> convertToCamelotKey 0 1 = Some ''8A''
   \<and> convertToCamelotKey (-1) 1 = None \<and> convertToCamelotKey 4 (-1) = None"
  using convertToCamelotKey_total [of 9 0] convertToCamelotKey_total [of 0 1]
    convertToCamelotKey_total [of "-1" 1] convertToCamelotKey_total [of 4 "-1"]
  by (simp add: camelotMajor_def camelotMinor_def show_nat_wheel)

section \<open>Properties of the Submission Store\<close>

lemma truthy_SomeE: "truthy v \<Longrightarrow> \<exists>t. v = Some t \<and> t \<noteq> []"
  by (cases v) auto

lemmas sample_defs = sample_store_def friday_def karaoke_def request_def select_session_def

lemma set_select_submissions:
  "set (select_submissions a db) = {r \<in> set (submissions db). sub_session_id r = Some a}"
  by (auto simp: select_submissions_def)

lemma format_row_session [simp]: "sub_session_id (format_row r) = sub_session_id r"
  by (simp add: format_row_def)

text \<open>
  Claim C1. Whenever \<open>GET /api/submissions?sessionId=A\<close> answers with rows, in any state
  of the store, every row returned carries the session reference A, no row of the table
  with another session reference is among them (as stored or as formatted), and the rows
  returned are exactly the formatted rows of A.
\<close>

theorem listBySession_isolation:
  "get_submissions sessionId db = Json rows \<Longrightarrow>
     (\<forall>r \<in> set rows. sub_session_id r = sessionId)
     \<and> (\<forall>r \<in> set (submissions db). sub_session_id r \<noteq> sessionId \<longrightarrow>
            r \<notin> set rows \<and> format_row r \<notin> set rows)
     \<and> set rows = format_row ` {r \<in> set (submissions db). sub_session_id r = sessionId}"
proof -
  assume a: "get_submissions sessionId db = Json rows"
  then have t: "truthy sessionId"
    by (auto simp: get_submissions_def split: if_splits)
  then obtain i where i: "sessionId = Some i"
    using truthy_SomeE by blast
  from a t i have rows: "rows = map format_row (select_submissions i db)"
    by (auto simp: get_submissions_def split: option.splits)
  have s: "set rows = format_row ` {r \<in> set (submissions db). sub_session_id r = sessionId}"
    by (simp add: rows i set_select_submissions)
  have own: "\<forall>r \<in> set rows. sub_session_id r = sessionId"
    unfolding s by auto
  then have others: "\<forall>r \<in> set (submissions db). sub_session_id r \<noteq> sessionId \<longrightarrow>
            r \<notin> set rows \<and> format_row r \<notin> set rows"
    by auto
  from own others s show ?thesis
    by blast
qed

lemma sample_list_friday:
  "get_submissions (Some ''AB12'') sample_store =
     Json [request 3 ''AB12'' ''one'' ''u2'' ''2024-05-03T20:30:00.000Z'',
           request 1 ''AB12'' ''yesterday'' ''beatles'' ''2024-05-03T20:05:00.000Z'']"
  by (simp add: get_submissions_def sample_defs select_submissions_def format_row_def trim_def
        isWhiteSpace_def is_sqlite_datetime_def is_digit_def)

theorem listBySession_isolation_witness:
  "get_submissions (Some ''AB12'') sample_store =
     Json [request 3 ''AB12'' ''one'' ''u2'' ''2024-05-03T20:30:00.000Z'',
           request 1 ''AB12'' ''yesterday'' ''beatles'' ''2024-05-03T20:05:00.000Z'']
   \<and> sub_session_id (request 3 ''AB12'' ''one'' ''u2'' ''2024-05-03T20:30:00.000Z'') = Some ''AB12''
   \<and> sub_session_id (request 1 ''AB12'' ''yesterday'' ''beatles'' ''2024-05-03T20:05:00.000Z'')
       = Some ''AB12''"
proof -
  from listBySession_isolation [OF sample_list_friday]
  have "\<forall>r \<in> set [request 3 ''AB12'' ''one'' ''u2'' ''2024-05-03T20:30:00.000Z'',
                   request 1 ''AB12'' ''yesterday'' ''beatles'' ''2024-05-03T20:05:00.000Z''].
          sub_session_id r = Some ''AB12''"
    by (rule conjunct1)
  with sample_list_friday show ?thesis
    by simp
qed

text \<open>
  Claim C2, as the code has it. With an absent (or empty) \<open>sessionId\<close> all three
  operations answer 400 and leave the store as it is. With a \<open>sessionId\<close> that names no
  session, submit answers 404 when the song name and the artist are present, and the
  listing answers 404; the clearing has no existence check and answers with the number
  of rows deleted.
\<close>

theorem sessionId_rejections:
  "(\<not> truthy sessionId \<longrightarrow>
      (\<exists>m. post_submit tenv feats now songName artist userName sessionId spotifyId db cache
            = (Failure 400 m, db, cache))
      \<and> get_submissions sessionId db = Failure 400 ''Session ID is required''
      \<and> delete_clear sessionId db = (Failure 400 ''Session ID is required'', db))
   \<and> (truthy sessionId \<and> select_session (the sessionId) db = None \<longrightarrow>
      (truthy songName \<and> truthy artist \<longrightarrow>
         post_submit tenv feats now songName artist userName sessionId spotifyId db cache
           = (Failure 404 ''Session not found'', db, cache))
      \<and> get_submissions sessionId db = Failure 404 ''Session not found''
      \<and> fst (delete_clear sessionId db)
          = Json (length (filter (\<lambda>r. sub_session_id r = sessionId) (submissions db))))"
  by (auto simp: post_submit_def get_submissions_def delete_clear_def delete_submissions_def
        dest!: truthy_SomeE)

theorem sessionId_rejections_witness:
  "\<not> truthy None \<and> get_submissions None sample_store = Failure 400 ''Session ID is required''
   \<and> delete_clear None sample_store = (Failure 400 ''Session ID is required'', sample_store)
   \<and> truthy (Some ''ZZ99'') \<and> select_session (the (Some ''ZZ99'')) sample_store = None
   \<and> truthy (Some ''one'') \<and> truthy (Some ''u2'')
   \<and> post_submit offline no_features ''2024-05-05 10:00:00'' (Some ''one'') (Some ''u2'') None
        (Some ''ZZ99'') None sample_store empty_cache
       = (Failure 404 ''Session not found'', sample_store, empty_cache)
   \<and> get_submissions (Some ''ZZ99'') sample_store = Failure 404 ''Session not found''
   \<and> fst (delete_clear (Some ''ZZ99'') sample_store) = Json 0"
  using sessionId_rejections [of None offline no_features "''2024-05-05 10:00:00''"
      "Some ''one''" "Some ''u2''" None None sample_store empty_cache]
    sessionId_rejections [of "Some ''ZZ99''" offline no_features "''2024-05-05 10:00:00''"
      "Some ''one''" "Some ''u2''" None None sample_store empty_cache]
  by (simp add: sample_defs)

text \<open>
  The claim as written fails for the clearing: an unknown session id is not rejected.
\<close>

theorem clear_unknown_session_counterexample:
  "select_session ''ZZ99'' sample_store = None
   \<and> fst (delete_clear (Some ''ZZ99'') sample_store) = Json 0
   \<and> fst (delete_clear (Some ''ZZ99'') sample_store) \<noteq> Failure 404 ''Session not found''"
  by (simp add: sample_defs delete_clear_def delete_submissions_def)

text \<open>
  Claim C3, as the code has it. A request to \<open>POST /api/submit\<close> whose \<open>sessionId\<close> is
  absent or names no session fails and leaves the store (and the token cache) as it
  is: with 404 when the song name, the artist and the session id are all present, with
  400 otherwise.
\<close>

theorem submit_unknown_session:
  "\<not> truthy sessionId \<or> select_session (the sessionId) db = None \<Longrightarrow>
   (\<exists>m. post_submit tenv feats now songName artist userName sessionId spotifyId db cache
      = ((if truthy songName \<and> truthy artist \<and> truthy sessionId
          then Failure 404 ''Session not found'' else Failure 400 m), db, cache))"
  by (auto simp: post_submit_def)

theorem submit_unknown_session_witness:
  "select_session (the (Some ''ZZ99'')) sample_store = None
   \<and> post_submit offline no_features ''2024-05-05 10:00:00'' (Some ''one'') (Some ''u2'') None
        (Some ''ZZ99'') None sample_store empty_cache
       = (Failure 404 ''Session not found'', sample_store, empty_cache)"
  using submit_unknown_session [of "Some ''ZZ99''" sample_store offline no_features
      "''2024-05-05 10:00:00''" "Some ''one''" "Some ''u2''" None None empty_cache]
  by (simp add: sample_defs)

text \<open>
  The claim as written fails when a required field is missing: the answer is then 400,
  whatever the session id.
\<close>

theorem submit_missing_song_counterexample:
  "select_session ''ZZ99'' sample_store = None
   \<and> post_submit offline no_features ''2024-05-05 10:00:00'' None (Some ''beatles'') None
        (Some ''ZZ99'') None sample_store empty_cache
       = (Failure 400 ''Song name and artist are required'', sample_store, empty_cache)"
  by (simp add: sample_defs post_submit_def)

section \<open>Properties of the settings\<close>

lemma find_None_map:
  "find (\<lambda>r. ses_id r = i) xs = None \<Longrightarrow> map (\<lambda>r. if ses_id r = i then f r else r) xs = xs"
  by (induction xs) (auto split: if_splits)

text \<open>
  Claim C10. \<open>POST /api/update-settings\<close> with a session id that names no session
  answers \<open>{success: true}\<close> and leaves the store, so every session record, as it is.
\<close>

theorem update_settings_unknown_session:
  "truthy sessionId \<Longrightarrow> select_session (the sessionId) db = None \<Longrightarrow>
     post_update_settings sessionId w s b db = (Json (), db)"
  by (simp add: post_update_settings_def update_session_settings_def select_session_def
        find_None_map)

theorem update_settings_unknown_session_witness:
  "truthy (Some ''ZZ99'') \<and> select_session (the (Some ''ZZ99'')) sample_store = None
   \<and> post_update_settings (Some ''ZZ99'') (Some ''Hi'') None None sample_store
       = (Json (), sample_store)"
  using update_settings_unknown_session [of "Some ''ZZ99''" sample_store "Some ''Hi''" None None]
  by (simp add: sample_defs)

lemma is_set_or_null [simp]: "is_set (or_null v) = is_set v"
  by (cases v) (auto simp: or_null_def is_set_def)

lemma or_null_is_set: "is_set v \<Longrightarrow> or_null v = v"
  by (cases v) (auto simp: or_null_def is_set_def)

lemma find_map_update:
  "find (\<lambda>r. ses_id r = i) xs = Some row \<Longrightarrow> (\<And>r. ses_id (f r) = ses_id r) \<Longrightarrow>
   find (\<lambda>r. ses_id r = i) (map (\<lambda>r. if ses_id r = i then f r else r) xs) = Some (f row)"
  by (induction xs) (auto split: if_splits)

lemma select_after_update:
  "select_session i db = Some row \<Longrightarrow>
   select_session i (update_session_settings w s b i db)
     = Some (row\<lparr>ses_welcome_message := w, ses_subtitle_message := s, ses_background := b\<rparr>)"
  unfolding select_session_def update_session_settings_def
  by (simp add: find_map_update [where f = "\<lambda>r. r\<lparr>ses_welcome_message := w,
        ses_subtitle_message := s, ses_background := b\<rparr>"])

text \<open>
  Claim C8, as the code has it. For an existing session, \<open>POST /api/update-settings\<close>
  stores null for every field that is omitted or empty and the given text otherwise. The
  following \<open>GET /api/settings\<close> returns a field verbatim when it was given and is not
  blank (it has a character that is not white space), and otherwise its default: the
  session name, the fixed subtitle, the fixed colour.
\<close>

theorem settings_round_trip:
  assumes "truthy sessionId" and "select_session (the sessionId) db = Some row"
  shows "fst (post_update_settings sessionId w s b db) = Json ()
    \<and> select_session (the sessionId) (snd (post_update_settings sessionId w s b db))
        = Some (row\<lparr>ses_welcome_message := (if truthy w then w else None),
                     ses_subtitle_message := (if truthy s then s else None),
                     ses_background := (if truthy b then b else None)\<rparr>)
    \<and> get_settings sessionId (snd (post_update_settings sessionId w s b db))
        = Json \<lparr>welcomeMessage = Some (if is_set w then the w else ses_name row),
                 subtitleMessage = (if is_set s then the s else ''Submit your song below''),
                 background = (if is_set b then the b else ''#000'')\<rparr>"
proof -
  let ?db = "update_session_settings (or_null w) (or_null s) (or_null b) (the sessionId) db"
  from assms(1) have p: "post_update_settings sessionId w s b db = (Json (), ?db)"
    by (simp add: post_update_settings_def)
  have sel: "select_session (the sessionId) ?db
     = Some (row\<lparr>ses_welcome_message := or_null w, ses_subtitle_message := or_null s,
                  ses_background := or_null b\<rparr>)"
    using assms(2) by (rule select_after_update)
  have g: "get_settings sessionId ?db
     = Json \<lparr>welcomeMessage = Some (if is_set w then the w else ses_name row),
              subtitleMessage = (if is_set s then the s else ''Submit your song below''),
              background = (if is_set b then the b else ''#000'')\<rparr>"
    using assms(1) by (simp add: get_settings_def sel or_null_is_set cong: if_cong)
  from p sel g show ?thesis
    by (simp add: or_null_def)
qed

theorem settings_round_trip_witness:
  "truthy (Some ''CD34'') \<and> select_session (the (Some ''CD34'')) sample_store = Some karaoke
   \<and> select_session ''CD34''
        (snd (post_update_settings (Some ''CD34'') (Some ''Sing!'') None (Some ''#fff'') sample_store))
       = Some (karaoke\<lparr>ses_welcome_message := Some ''Sing!'', ses_subtitle_message := None,
                       ses_background := Some ''#fff''\<rparr>)
   \<and> get_settings (Some ''CD34'')
        (snd (post_update_settings (Some ''CD34'') (Some ''Sing!'') None (Some ''#fff'') sample_store))
       = Json \<lparr>welcomeMessage = Some ''Sing!'', subtitleMessage = ''Submit your song below'',
                background = ''#fff''\<rparr>"
  using settings_round_trip [of "Some ''CD34''" sample_store karaoke "Some ''Sing!''" None
      "Some ''#fff''"]
  by (simp add: sample_defs is_set_def trim_def isWhiteSpace_def)

text \<open>
  The claim as written fails for a blank value: a welcome message of one space is stored
  as given, and the read returns the session name in its place.
\<close>

theorem blank_setting_counterexample:
  "select_session ''AB12''
      (snd (post_update_settings (Some ''AB12'') (Some '' '') None None sample_store))
     = Some (friday\<lparr>ses_welcome_message := Some '' '', ses_subtitle_message := None,
                    ses_background := None\<rparr>)
   \<and> get_settings (Some ''AB12'')
        (snd (post_update_settings (Some ''AB12'') (Some '' '') None None sample_store))
       = Json \<lparr>welcomeMessage = Some ''Friday Mixer'', subtitleMessage = ''Submit your song below'',
                background = ''#000''\<rparr>"
  by (simp add: sample_defs post_update_settings_def update_session_settings_def or_null_def
        get_settings_def is_set_def trim_def isWhiteSpace_def)

section \<open>Properties of the short-code route\<close>

lemma upcase_class:
  "(is_upper (upcase c) \<or> is_digit (upcase c)) = (is_upper c \<or> is_lower c \<or> is_digit c)"
  unfolding upcase_def is_upper_def is_lower_def is_digit_def
  by (simp split: option.splits)

lemma session_code_test_upcase: "session_code_test t = matches_code_pattern (map upcase t)"
  by (simp add: session_code_test_def matches_code_pattern_def list_all_iff upcase_class)

lemma pattern_imp_test: "matches_code_pattern t \<Longrightarrow> session_code_test t"
  by (auto simp: session_code_test_def matches_code_pattern_def list_all_iff)

text \<open>
  Claim C9, as the code has it. \<open>GET /:code\<close> redirects to \<open>/session/:code\<close> exactly
  when the code, with its letters upper-cased, matches \<open>^[A-Z0-9]{4}$\<close> (the test ignores
  case), and answers 404 for every other code; in particular every code that matches the
  pattern as it stands is redirected.
\<close>

theorem session_code_route:
  "(get_session_code code = Redirect (''/session/'' @ code))
      = matches_code_pattern (map upcase code)
   \<and> (\<not> matches_code_pattern (map upcase code) \<longrightarrow>
         get_session_code code = Status 404 ''Session not found'')
   \<and> (matches_code_pattern code \<longrightarrow> get_session_code code = Redirect (''/session/'' @ code))"
  by (auto simp: get_session_code_def session_code_test_upcase [symmetric] pattern_imp_test)

theorem session_code_route_witness:
  "matches_code_pattern ''A1B2'' \<and> get_session_code ''A1B2'' = Redirect ''/session/A1B2''
   \<and> \<not> matches_code_pattern (map upcase ''A1B2C'')
   \<and> get_session_code ''A1B2C'' = Status 404 ''Session not found''"
  using session_code_route [of "''A1B2''"] session_code_route [of "''A1B2C''"]
  by (simp add: matches_code_pattern_def is_upper_def is_digit_def)

text \<open>The claim as written fails for lower-case letters: they are redirected too.\<close>

theorem lower_case_code_counterexample:
  "\<not> matches_code_pattern ''abcd'' \<and> get_session_code ''abcd'' = Redirect ''/session/abcd''"
  by (simp add: matches_code_pattern_def get_session_code_def session_code_test_def
        is_upper_def is_lower_def is_digit_def)

section \<open>Properties of the Enrichment Client\<close>

lemma enhanceSongData_settles: "\<exists>r c. enhanceSongData env songName artist cache = (Inr r, c)"
  by (auto simp: enhanceSongData_def split: prod.splits sum.splits)

lemma enhanceSongData_openai_settles:
  "\<exists>r. enhanceSongData_openai chat parse songName artist = Inr r"
  by (auto simp: enhanceSongData_openai_def split: sum.splits)

lemma verifyWithSpotify_no_match:
  "fst (getSpotifyAccessToken tenv cache) = Inr t \<Longrightarrow>
   \<not> truthy t
     \<or> (\<exists>e. search (''track:'' @ songName @ '' artist:'' @ artistName) = Inl e)
     \<or> search (''track:'' @ songName @ '' artist:'' @ artistName) = Inr []
     \<or> (\<exists>tr rest. search (''track:'' @ songName @ '' artist:'' @ artistName) = Inr (tr # rest)
           \<and> track_artists tr = []) \<Longrightarrow>
   fst (verifyWithSpotify tenv search songName artistName cache) = Inr None"
  by (auto simp: verifyWithSpotify_def verifyWithSpotify_try_def
        split: prod.splits sum.splits list.splits)

lemma enhanceSongData_no_match:
  "fst (verifyWithSpotify (verify_token env) (search_api env) songName artist cache) = Inr None \<Longrightarrow>
   fst (enhanceSongData env songName artist cache) = Inr (original_data songName artist)"
  by (auto simp: enhanceSongData_def enhanceSongData_try_def
        split: prod.splits sum.splits option.splits)

lemma enhanceSongData_no_features:
  "verifyWithSpotify (verify_token env) (search_api env) songName artist cache = (Inr (Some m), c) \<Longrightarrow>
   fst (getSpotifyAudioFeatures (features_token env) (features_api env) (spotify_id m) c) = Inr None \<Longrightarrow>
   fst (enhanceSongData env songName artist cache)
     = Inr \<lparr>corrected_song_name = spotify_song_name m, corrected_artist = spotify_artist m,
            bpm = None, key_camelot = None, key_regular = None, spotify_verified = True,
            spotify_data = Some m\<rparr>"
  by (auto simp: enhanceSongData_def enhanceSongData_try_def
        split: prod.splits sum.splits option.splits)

lemma enhanceSongData_openai_failure:
  "(\<exists>e. chat songName artist = Inl e) \<or> chat songName artist = Inr []
     \<or> (\<exists>rest. chat songName artist = Inr (None # rest))
     \<or> (\<exists>content rest e. chat songName artist = Inr (Some content # rest)
           \<and> parse (case match_braces (trim content) of None \<Rightarrow> trim content | Some m \<Rightarrow> m)
                \<in> {Inl e, Inr JNull}) \<Longrightarrow>
   enhanceSongData_openai chat parse songName artist = Inr (original_data_ai songName artist)"
  by (auto simp: enhanceSongData_openai_def enhanceSongData_openai_try_def)

text \<open>
  Claim C5, as the code has it. \<open>enhanceSongData\<close> always returns a record and never
  throws, in both revisions. In the Spotify revision it returns the input song and artist
  with null bpm and keys when no token is available, when the search request fails, when
  the search finds nothing, or when the track found has no artist; when the search finds
  a track and the audio features are unavailable, it returns the name and artist of the
  track found, with null bpm and keys. In the OpenAI revision it returns the input song and
  artist with null bpm and keys when the completion request fails, has no choice or no
  content, or when the text cannot be parsed or parses to null.
\<close>

theorem enhanceSongData_never_throws:
  "(\<exists>r c. enhanceSongData env songName artist cache = (Inr r, c))
   \<and> (\<forall>t. fst (getSpotifyAccessToken (verify_token env) cache) = Inr t \<and>
          (\<not> truthy t
           \<or> (\<exists>e. search_api env (''track:'' @ songName @ '' artist:'' @ artist) = Inl e)
           \<or> search_api env (''track:'' @ songName @ '' artist:'' @ artist) = Inr []
           \<or> (\<exists>tr rest. search_api env (''track:'' @ songName @ '' artist:'' @ artist) = Inr (tr # rest)
                 \<and> track_artists tr = []))
        \<longrightarrow> fst (enhanceSongData env songName artist cache) = Inr (original_data songName artist))
   \<and> (\<forall>m c. verifyWithSpotify (verify_token env) (search_api env) songName artist cache = (Inr (Some m), c)
          \<and> fst (getSpotifyAudioFeatures (features_token env) (features_api env) (spotify_id m) c) = Inr None
        \<longrightarrow> fst (enhanceSongData env songName artist cache)
             = Inr \<lparr>corrected_song_name = spotify_song_name m, corrected_artist = spotify_artist m,
                    bpm = None, key_camelot = None, key_regular = None, spotify_verified = True,
                    spotify_data = Some m\<rparr>)
   \<and> (\<exists>r. enhanceSongData_openai chat parse songName artist = Inr r)
   \<and> ((\<exists>e. chat songName artist = Inl e) \<or> chat songName artist = Inr []
        \<or> (\<exists>rest. chat songName artist = Inr (None # rest))
        \<or> (\<exists>content rest e. chat songName artist = Inr (Some content # rest)
             \<and> parse (case match_braces (trim content) of None \<Rightarrow> trim content | Some m \<Rightarrow> m)
                  \<in> {Inl e, Inr JNull})
       \<longrightarrow> enhanceSongData_openai chat parse songName artist = Inr (original_data_ai songName artist))"
proof (intro conjI allI impI)
  show "\<exists>r c. enhanceSongData env songName artist cache = (Inr r, c)"
    by (rule enhanceSongData_settles)
  show "\<exists>r. enhanceSongData_openai chat parse songName artist = Inr r"
    by (rule enhanceSongData_openai_settles)
next
  fix t
  assume a: "fst (getSpotifyAccessToken (verify_token env) cache) = Inr t \<and>
          (\<not> truthy t
           \<or> (\<exists>e. search_api env (''track:'' @ songName @ '' artist:'' @ artist) = Inl e)
           \<or> search_api env (''track:'' @ songName @ '' artist:'' @ artist) = Inr []
           \<or> (\<exists>tr rest. search_api env (''track:'' @ songName @ '' artist:'' @ artist) = Inr (tr # rest)
                 \<and> track_artists tr = []))"
  then have "fst (verifyWithSpotify (verify_token env) (search_api env) songName artist cache) = Inr None"
    using verifyWithSpotify_no_match [of "verify_token env" cache t "search_api env" songName artist]
    by blast
  then show "fst (enhanceSongData env songName artist cache) = Inr (original_data songName artist)"
    by (rule enhanceSongData_no_match)
next
  fix m c
  assume "verifyWithSpotify (verify_token env) (search_api env) songName artist cache = (Inr (Some m), c)
          \<and> fst (getSpotifyAudioFeatures (features_token env) (features_api env) (spotify_id m) c) = Inr None"
  then show "fst (enhanceSongData env songName artist cache)
             = Inr \<lparr>corrected_song_name = spotify_song_name m, corrected_artist = spotify_artist m,
                    bpm = None, key_camelot = None, key_regular = None, spotify_verified = True,
                    spotify_data = Some m\<rparr>"
    using enhanceSongData_no_features by blast
next
  assume "(\<exists>e. chat songName artist = Inl e) \<or> chat songName artist = Inr []
        \<or> (\<exists>rest. chat songName artist = Inr (None # rest))
        \<or> (\<exists>content rest e. chat songName artist = Inr (Some content # rest)
             \<and> parse (case match_braces (trim content) of None \<Rightarrow> trim content | Some m \<Rightarrow> m)
                  \<in> {Inl e, Inr JNull})"
  then show "enhanceSongData_openai chat parse songName artist = Inr (original_data_ai songName artist)"
    by (rule enhanceSongData_openai_failure)
qed

lemmas env_defs = features_down_def all_down_def offline_def no_features_def empty_cache_def
  yesterday_def chatty_def reject_def

lemmas spotify_defs = enhanceSongData_def enhanceSongData_try_def verifyWithSpotify_def
  verifyWithSpotify_try_def getSpotifyAccessToken_def getSpotifyAudioFeatures_def
  getSpotifyAudioFeatures_try_def

theorem enhanceSongData_never_throws_witness:
  "fst (getSpotifyAccessToken (verify_token all_down) empty_cache) = Inr None
   \<and> \<not> truthy None
   \<and> fst (enhanceSongData all_down ''yesterday'' ''beatles'' empty_cache)
       = Inr (original_data ''yesterday'' ''beatles'')
   \<and> chatty ''yesterday'' ''beatles'' = Inr [Some ''I could not find that song.'']
   \<and> reject ''I could not find that song.'' = Inl (Exn ''SyntaxError'')
   \<and> enhanceSongData_openai chatty reject ''yesterday'' ''beatles''
       = Inr (original_data_ai ''yesterday'' ''beatles'')
   \<and> verifyWithSpotify (verify_token features_down) (search_api features_down)
         ''yesterday'' ''beatles'' empty_cache
       = (Inr (Some \<lparr>spotify_song_name = ''Yesterday'', spotify_artist = ''The Beatles'',
                       spotify_id = ''3BQHpFgAp4l80e1XslIjNI'', spotify_popularity = 80,
                       spotify_preview_url = None, spotify_external_urls = ''{}''\<rparr>),
          \<lparr>spotifyAccessToken = Some ''token'', tokenExpiry = Some 3541000\<rparr>)
   \<and> fst (getSpotifyAudioFeatures (features_token features_down) (features_api features_down)
              ''3BQHpFgAp4l80e1XslIjNI''
              \<lparr>spotifyAccessToken = Some ''token'', tokenExpiry = Some 3541000\<rparr>)
       = Inr None
   \<and> corrected_song_name
         (projr (fst (enhanceSongData features_down ''yesterday'' ''beatles'' empty_cache)))
       = ''Yesterday''"
  using enhanceSongData_never_throws
          [of all_down "''yesterday''" "''beatles''" empty_cache chatty reject]
        enhanceSongData_never_throws
          [of features_down "''yesterday''" "''beatles''" empty_cache chatty reject]
  by (simp add: env_defs getSpotifyAccessToken_def verifyWithSpotify_def
        verifyWithSpotify_try_def getSpotifyAudioFeatures_def getSpotifyAudioFeatures_try_def)

text \<open>
  The claim as written fails when the search succeeds and the audio-features request
  fails: the record then carries the name and artist of the track found, not the input.
\<close>

theorem features_failure_counterexample:
  "features_api features_down ''3BQHpFgAp4l80e1XslIjNI'' = Inl (Exn ''ECONNREFUSED'')
   \<and> fst (enhanceSongData features_down ''yesterday'' ''beatles'' empty_cache)
      = Inr \<lparr>corrected_song_name = ''Yesterday'', corrected_artist = ''The Beatles'',
             bpm = None, key_camelot = None, key_regular = None, spotify_verified = True,
             spotify_data =
               Some \<lparr>spotify_song_name = ''Yesterday'', spotify_artist = ''The Beatles'',
                     spotify_id = ''3BQHpFgAp4l80e1XslIjNI'', spotify_popularity = 80,
                     spotify_preview_url = None, spotify_external_urls = ''{}''\<rparr>\<rparr>
   \<and> fst (enhanceSongData features_down ''yesterday'' ''beatles'' empty_cache)
      \<noteq> Inr (original_data ''yesterday'' ''beatles'')"
  by (simp add: env_defs spotify_defs original_data_def)

section \<open>Properties of the session ids\<close>

lemma shortCodeLoop_draws: "snd (shortCodeLoop k g p code) = p + k"
  by (induction k arbitrary: p code) auto

lemma generateShortCode_draws: "snd (generateShortCode g p) = p + 4"
  by (simp add: generateShortCode_def shortCodeLoop_draws)

lemma length_chars: "length chars = 36"
  by (simp add: chars_def)

lemma charAt_chars: "i < 36 \<Longrightarrow> \<exists>c. charAt chars i = [c] \<and> c \<in> set chars"
  using nth_mem [of i chars] by (simp add: charAt_def length_chars)

lemma shortCodeLoop_code:
  "\<forall>n. g n < 36 \<Longrightarrow>
   length (fst (shortCodeLoop k g p code)) = length code + k
   \<and> set (fst (shortCodeLoop k g p code)) \<subseteq> set code \<union> set chars"
proof (induction k arbitrary: p code)
  case 0
  then show ?case by simp
next
  case (Suc k)
  from Suc.prems obtain c where c: "charAt chars (g p) = [c]" "c \<in> set chars"
    using charAt_chars by blast
  from Suc.IH [OF Suc.prems, of "Suc p" "code @ [c]"] c show ?case
    by auto
qed

lemma chars_class: "c \<in> set chars \<Longrightarrow> is_upper c \<or> is_digit c"
  by (auto simp: chars_def is_upper_def is_digit_def)

lemma generateShortCode_pattern:
  "\<forall>n. g n < 36 \<Longrightarrow> matches_code_pattern (fst (generateShortCode g p))"
proof -
  assume "\<forall>n. g n < 36"
  from shortCodeLoop_code [OF this, of 4 p "[]"]
  have l: "length (fst (generateShortCode g p)) = 4"
    and s: "set (fst (generateShortCode g p)) \<subseteq> set chars"
    by (simp_all add: generateShortCode_def)
  from s have "\<forall>c \<in> set (fst (generateShortCode g p)). is_upper c \<or> is_digit c"
    using chars_class by blast
  with l show ?thesis
    by (simp add: matches_code_pattern_def list_all_iff)
qed

lemma tryGenerate_Some:
  "tryGenerate g db attempts p = (Some i, p') \<Longrightarrow>
   select_session i db = None \<and> (\<exists>q. i = fst (generateShortCode g q))"
proof (induction g db attempts p rule: tryGenerate.induct)
  case (1 g db attempts p)
  show ?case
  proof (cases "Suc attempts > maxAttempts")
    case True
    with "1.prems" show ?thesis by (simp add: tryGenerate.simps [of g db attempts p])
  next
    case False
    obtain c q where gen: "generateShortCode g p = (c, q)" by (cases "generateShortCode g p")
    show ?thesis
    proof (cases "select_session c db")
      case None
      with False gen "1.prems" have "i = c"
        by (simp add: tryGenerate.simps [of g db attempts p])
      with None gen show ?thesis by (metis fst_conv)
    next
      case (Some row)
      with False gen "1.prems" have "tryGenerate g db (Suc attempts) q = (Some i, p')"
        by (simp add: tryGenerate.simps [of g db attempts p])
      with "1.IH" False gen Some show ?thesis by simp
    qed
  qed
qed

lemma select_session_None: "(select_session i db = None) = (i \<notin> ses_id ` set (sessions db))"
  by (auto simp: select_session_def find_None_iff)

lemma post_sessions_created:
  assumes "post_sessions g p now isoNow name db = (Json i, db', p')" and "\<forall>n. g n < 36"
  shows "matches_code_pattern (info_id i) \<and> info_id i \<notin> ses_id ` set (sessions db)
         \<and> map ses_id (sessions db') = map ses_id (sessions db) @ [info_id i]"
proof -
  obtain sid q where gen: "generateSessionId g p db = (sid, q)"
    by (cases "generateSessionId g p db")
  from assms(1) gen obtain c where c: "sid = Some c" "info_id i = c"
    and ins: "map ses_id (sessions db') = map ses_id (sessions db) @ [c]"
    by (auto simp: post_sessions_def insert_session_def Let_def split: if_splits option.splits dest!: truthy_SomeE)
  from gen c have "tryGenerate g db 0 p = (Some c, q)"
    by (simp add: generateSessionId_def)
  from tryGenerate_Some [OF this] assms(2) have "select_session c db = None" "matches_code_pattern c"
    by (auto simp: generateShortCode_pattern)
  with c ins show ?thesis by (simp add: select_session_None)
qed

lemma post_sessions_failed:
  "post_sessions g p now isoNow name db = (Failure st m, db', p') \<Longrightarrow> db' = db"
  by (auto simp: post_sessions_def Let_def split: if_splits option.splits prod.splits)


lemma create_sessions_ids:
  assumes "\<forall>n. g n < 36"
  shows "create_sessions g p reqs db = (rs, db', p') \<Longrightarrow>
     map ses_id (sessions db') = map ses_id (sessions db) @ created_ids rs
     \<and> list_all matches_code_pattern (created_ids rs)
     \<and> distinct (created_ids rs)
     \<and> set (created_ids rs) \<inter> ses_id ` set (sessions db) = {}"
proof (induction reqs arbitrary: p db rs db' p')
  case Nil
  then show ?case by simp
next
  case (Cons req reqs)
  obtain name now isoNow where req: "req = (name, now, isoNow)"
    by (cases req)
  obtain r db1 p1 where post: "post_sessions g p now isoNow name db = (r, db1, p1)"
    by (cases "post_sessions g p now isoNow name db")
  obtain rs1 where run: "create_sessions g p1 reqs db1 = (rs1, db', p')" and rs: "rs = r # rs1"
    using Cons.prems req post by (auto split: prod.splits)
  note ih = Cons.IH [OF run]
  show ?case
  proof (cases r)
    case (Json i)
    from post_sessions_created [OF post [unfolded Json] assms]
    have new: "matches_code_pattern (info_id i)" "info_id i \<notin> ses_id ` set (sessions db)"
      "map ses_id (sessions db1) = map ses_id (sessions db) @ [info_id i]"
      by simp_all
    from new(3) have s1: "ses_id ` set (sessions db1) = ses_id ` set (sessions db) \<union> {info_id i}"
      by (metis Un_insert_right list.set(1) list.set(2) set_append set_map sup_bot.right_neutral)
    from ih new s1 show ?thesis
      by (auto simp: rs Json)
  next
    case (Failure st m)
    from post_sessions_failed [OF post [unfolded Failure]] have "db1 = db" .
    with ih show ?thesis
      by (simp add: rs Failure)
  qed
qed

lemma tryGenerate_draws:
  "attempts \<le> maxAttempts \<Longrightarrow>
   \<exists>n. attempts + n \<le> maxAttempts \<and> snd (tryGenerate g db attempts p) = p + 4 * n"
proof (induction g db attempts p rule: tryGenerate.induct)
  case (1 g db attempts p)
  show ?case
  proof (cases "Suc attempts > maxAttempts")
    case True
    then have "snd (tryGenerate g db attempts p) = p + 4 * 0"
      by (simp add: tryGenerate.simps [of g db attempts p])
    with "1.prems" show ?thesis by (metis add.right_neutral)
  next
    case False
    obtain c q where gen: "generateShortCode g p = (c, q)" by (cases "generateShortCode g p")
    then have q: "q = p + 4" using generateShortCode_draws [of g p] by simp
    show ?thesis
    proof (cases "select_session c db")
      case None
      with False gen q have "snd (tryGenerate g db attempts p) = p + 4 * 1"
        by (simp add: tryGenerate.simps [of g db attempts p])
      moreover from False have "attempts + 1 \<le> maxAttempts" by simp
      ultimately show ?thesis by blast
    next
      case (Some row)
      from False have "Suc attempts \<le> maxAttempts" by simp
      from "1.IH" [OF False gen [symmetric] Some this]
      obtain n where n: "Suc attempts + n \<le> maxAttempts"
        "snd (tryGenerate g db (Suc attempts) q) = q + 4 * n" by blast
      from False gen Some have "tryGenerate g db attempts p = tryGenerate g db (Suc attempts) q"
        by (simp add: tryGenerate.simps [of g db attempts p])
      with n q have "attempts + Suc n \<le> maxAttempts \<and> snd (tryGenerate g db attempts p) = p + 4 * Suc n"
        by simp
      then show ?thesis by blast
    qed
  qed
qed

lemma tryGenerate_exhausted:
  "attempts \<le> maxAttempts \<Longrightarrow>
   \<forall>k. attempts + k < maxAttempts \<longrightarrow>
         select_session (fst (generateShortCode g (p + 4 * k))) db \<noteq> None \<Longrightarrow>
   tryGenerate g db attempts p = (None, p + 4 * (maxAttempts - attempts))"
proof (induction g db attempts p rule: tryGenerate.induct)
  case (1 g db attempts p)
  show ?case
  proof (cases "Suc attempts > maxAttempts")
    case True
    with "1.prems"(1) have "maxAttempts - attempts = 0" by simp
    moreover from True have "tryGenerate g db attempts p = (None, p)"
      by (simp add: tryGenerate.simps [of g db attempts p])
    ultimately show ?thesis by simp
  next
    case False
    obtain c q where gen: "generateShortCode g p = (c, q)" by (cases "generateShortCode g p")
    then have q: "q = p + 4" using generateShortCode_draws [of g p] by simp
    from False "1.prems"(2) [rule_format, of 0] gen obtain row where row: "select_session c db = Some row"
      by auto
    from False have le: "Suc attempts \<le> maxAttempts" by simp
    have "\<forall>k. Suc attempts + k < maxAttempts \<longrightarrow>
         select_session (fst (generateShortCode g (q + 4 * k))) db \<noteq> None"
    proof (intro allI impI)
      fix k assume "Suc attempts + k < maxAttempts"
      then have "attempts + Suc k < maxAttempts" by simp
      from "1.prems"(2) [rule_format, OF this] show "select_session (fst (generateShortCode g (q + 4 * k))) db \<noteq> None"
        by (simp add: q add.assoc)
    qed
    from "1.IH" [OF False gen [symmetric] row le this]
    have "tryGenerate g db (Suc attempts) q = (None, q + 4 * (maxAttempts - Suc attempts))" .
    moreover from False gen row have "tryGenerate g db attempts p = tryGenerate g db (Suc attempts) q"
      by (simp add: tryGenerate.simps [of g db attempts p])
    ultimately show ?thesis using q le by simp
  qed
qed

lemma generateShortCode_unroll:
  "generateShortCode g p =
     (charAt chars (g p) @ charAt chars (g (Suc p)) @ charAt chars (g (Suc (Suc p)))
        @ charAt chars (g (Suc (Suc (Suc p)))), p + 4)"
  by (simp add: generateShortCode_def eval_nat_numeral)

lemma counting_bound: "\<forall>n. counting n < 36"
  by (simp add: counting_def)

lemma counting_codes:
  "generateShortCode counting 0 = (''ABCD'', 4)" "generateShortCode counting 4 = (''EFGH'', 8)"
  by (simp_all add: generateShortCode_unroll counting_def charAt_def chars_def)

lemma first_create:
  "post_sessions counting 0 ''2024-05-03 20:00:00'' ''2024-05-03T20:00:00.000Z''
      (Some ''Friday Mixer'') empty_store
   = (Json \<lparr>info_id = ''ABCD'', info_name = ''Friday Mixer'',
             info_createdAt = ''2024-05-03T20:00:00.000Z''\<rparr>, after_one, 4)"
  by (simp add: post_sessions_def generateSessionId_def tryGenerate.simps [of _ _ 0]
        maxAttempts_def counting_codes select_session_def insert_session_def empty_store_def
        trim_def isWhiteSpace_def after_one_def Let_def)

lemma second_create:
  "post_sessions counting 4 ''2024-05-04 19:00:00'' ''2024-05-04T19:00:00.000Z''
      (Some '' Karaoke '') after_one
   = (Json \<lparr>info_id = ''EFGH'', info_name = ''Karaoke'',
             info_createdAt = ''2024-05-04T19:00:00.000Z''\<rparr>, after_two, 8)"
  by (simp add: post_sessions_def generateSessionId_def tryGenerate.simps [of _ _ 0]
        maxAttempts_def counting_codes select_session_def insert_session_def trim_def
        isWhiteSpace_def after_one_def after_two_def Let_def)

lemma two_creates:
  "create_sessions counting 0
      [(Some ''Friday Mixer'', ''2024-05-03 20:00:00'', ''2024-05-03T20:00:00.000Z''),
       (Some '' Karaoke '', ''2024-05-04 19:00:00'', ''2024-05-04T19:00:00.000Z'')] empty_store
   = ([Json \<lparr>info_id = ''ABCD'', info_name = ''Friday Mixer'',
              info_createdAt = ''2024-05-03T20:00:00.000Z''\<rparr>,
       Json \<lparr>info_id = ''EFGH'', info_name = ''Karaoke'',
              info_createdAt = ''2024-05-04T19:00:00.000Z''\<rparr>],
      after_two, 8)"
  by (simp only: create_sessions.simps first_create second_create prod.case)

lemma stuck_candidate: "fst (generateShortCode stuck q) = ''AAAA''"
  by (simp add: generateShortCode_unroll stuck_def charAt_def chars_def)

lemma crowded_AAAA: "select_session ''AAAA'' crowded_store \<noteq> None"
  by (simp add: crowded_store_def select_session_def)

text \<open>The other routes that write to the store leave the session ids as they are.\<close>

lemma other_routes_keep_session_ids:
  "map ses_id (sessions (fst (snd (post_submit tenv feats now songName artist userName sessionId
      spotifyId db cache)))) = map ses_id (sessions db)"
  "map ses_id (sessions (snd (delete_clear sessionId db))) = map ses_id (sessions db)"
  "map ses_id (sessions (snd (post_update_settings sessionId w s b db))) = map ses_id (sessions db)"
  by (auto simp: post_submit_def insert_submission_def delete_clear_def delete_submissions_def
        post_update_settings_def update_session_settings_def Let_def
        split: option.splits prod.splits)

text \<open>
  Claim C6. Let the draws lie below 36, as \<open>Math.random()\<close> guarantees. In a run of
  \<open>POST /api/sessions\<close> requests, carried out one after the other from any store, every id
  returned by a successful create matches \<open>^[A-Z0-9]{4}$\<close>, the ids returned are
  pairwise distinct and differ from every id the store held before, the store's ids
  afterwards are the former ones followed by the returned ones, and so uniqueness of the
  ids in the store is preserved.
\<close>

theorem session_ids_wellformed_distinct:
  assumes "\<forall>n. g n < 36" and "create_sessions g p reqs db = (rs, db', p')"
  shows "list_all matches_code_pattern (created_ids rs)
     \<and> distinct (created_ids rs)
     \<and> set (created_ids rs) \<inter> ses_id ` set (sessions db) = {}
     \<and> map ses_id (sessions db') = map ses_id (sessions db) @ created_ids rs
     \<and> (distinct (map ses_id (sessions db)) \<longrightarrow> distinct (map ses_id (sessions db')))"
  using create_sessions_ids [OF assms] by auto

theorem session_ids_wellformed_distinct_witness:
  "(\<forall>n. counting n < 36)
   \<and> created_ids (fst (create_sessions counting 0
        [(Some ''Friday Mixer'', ''2024-05-03 20:00:00'', ''2024-05-03T20:00:00.000Z''),
         (Some '' Karaoke '', ''2024-05-04 19:00:00'', ''2024-05-04T19:00:00.000Z'')]
        empty_store))
      = [''ABCD'', ''EFGH'']
   \<and> matches_code_pattern ''ABCD'' \<and> matches_code_pattern ''EFGH''
   \<and> distinct [''ABCD'', ''EFGH'']"
proof -
  have ids: "created_ids (fst (create_sessions counting 0
        [(Some ''Friday Mixer'', ''2024-05-03 20:00:00'', ''2024-05-03T20:00:00.000Z''),
         (Some '' Karaoke '', ''2024-05-04 19:00:00'', ''2024-05-04T19:00:00.000Z'')]
        empty_store))
      = [''ABCD'', ''EFGH'']"
    by (subst two_creates) simp
  from session_ids_wellformed_distinct [OF counting_bound two_creates]
  have "matches_code_pattern ''ABCD''" "matches_code_pattern ''EFGH''"
    "distinct [''ABCD'', ''EFGH'']"
    by simp_all
  with ids counting_bound show ?thesis
    by blast
qed

text \<open>
  Claim C7. \<open>generateSessionId\<close> returns for every store and every random source, after
  at most 100 candidate codes (four draws each). When each of the 100 candidates is
  already taken it returns null after exactly 100 attempts, and whenever it returns null
  the create operation answers 500 with the text \<open>Failed to generate unique session ID\<close>
  and leaves the store as it is.
\<close>

theorem generateSessionId_bounded:
  "(\<exists>n \<le> maxAttempts. snd (generateSessionId g p db) = p + 4 * n)
   \<and> ((\<forall>k < maxAttempts. select_session (fst (generateShortCode g (p + 4 * k))) db \<noteq> None)
        \<longrightarrow> generateSessionId g p db = (None, p + 4 * maxAttempts))
   \<and> (truthy name \<and> trim (the name) \<noteq> [] \<and> fst (generateSessionId g p db) = None
        \<longrightarrow> post_sessions g p now isoNow name db
            = (Failure 500 ''Failed to generate unique session ID'', db,
               snd (generateSessionId g p db)))"
proof (intro conjI impI)
  show "\<exists>n \<le> maxAttempts. snd (generateSessionId g p db) = p + 4 * n"
    using tryGenerate_draws [of 0 g db p] by (simp add: generateSessionId_def)
  show "generateSessionId g p db = (None, p + 4 * maxAttempts)"
    if "\<forall>k < maxAttempts. select_session (fst (generateShortCode g (p + 4 * k))) db \<noteq> None"
    using tryGenerate_exhausted [of 0 g p db] that by (simp add: generateSessionId_def)
  show "post_sessions g p now isoNow name db
            = (Failure 500 ''Failed to generate unique session ID'', db,
               snd (generateSessionId g p db))"
    if "truthy name \<and> trim (the name) \<noteq> [] \<and> fst (generateSessionId g p db) = None"
    using that by (auto simp: post_sessions_def split: prod.splits)
qed

theorem generateSessionId_bounded_witness:
  "(\<forall>k. select_session (fst (generateShortCode stuck (0 + 4 * k))) crowded_store \<noteq> None)
   \<and> generateSessionId stuck 0 crowded_store = (None, 400)
   \<and> truthy (Some ''Party'') \<and> trim (the (Some ''Party'')) \<noteq> []
   \<and> post_sessions stuck 0 ''2024-05-05 10:00:00'' ''2024-05-05T10:00:00.000Z'' (Some ''Party'')
        crowded_store
       = (Failure 500 ''Failed to generate unique session ID'', crowded_store, 400)"
  using generateSessionId_bounded [of stuck 0 crowded_store "Some ''Party''"
      "''2024-05-05 10:00:00''" "''2024-05-05T10:00:00.000Z''"]
  by (simp add: stuck_candidate crowded_AAAA maxAttempts_def trim_def isWhiteSpace_def)

end
